theory Spec2Isabelle
  imports Complex_Main "HOL-Library.Sublist"
begin

section \<open>Conventions of the embedding\<close>

text \<open>
  The benchmark tooling of pg-flight-recorder is three Python modules:
  \<^verbatim>\<open>benchmark/lib/compare.py\<close>, \<^verbatim>\<open>benchmark/lib/ddl_analyzer.py\<close> and
  \<^verbatim>\<open>benchmark2/lib/statistical_analysis.py\<close>. Their numeric functions are embedded here.

  \<^item> A Python \<^verbatim>\<open>float\<close> is a \<^typ>\<open>real\<close>: rounding, overflow, infinities and NaN are
    outside the model. A Python \<^verbatim>\<open>int\<close> is an \<^typ>\<open>int\<close>, a length is a \<^typ>\<open>nat\<close>.
  \<^item> An exception is a value: a function that can raise returns \<open>py_error + 'a\<close>, with
    \<open>Inl\<close> for the exception. Every division by a variable goes through \<open>py_truediv\<close>
    (two floats), \<open>py_int_truediv\<close> (two ints) or \<open>py_floordiv\<close>, every list
    subscript through \<open>py_getitem\<close>.
  \<^item> Rendering (markdown, JSON, the \<^verbatim>\<open>impact_formatted\<close> strings produced by
    \<^verbatim>\<open>format_impact\<close>) and file input are not embedded.
\<close>

datatype py_error =
    ZeroDivisionError
  | OverflowError
  | KeyError string
  | IndexError
  | StatisticsError
  | ValueError

fun rbind :: "py_error + 'a \<Rightarrow> ('a \<Rightarrow> py_error + 'b) \<Rightarrow> py_error + 'b" where
  "rbind (Inl e) f = Inl e"
| "rbind (Inr v) f = f v"

subsection \<open>Python built-ins\<close>

definition py_truediv :: "real \<Rightarrow> real \<Rightarrow> py_error + real" where
  \<comment> \<open>\<^verbatim>\<open>a / b\<close>\<close>
  "py_truediv a b = (if b = 0 then Inl ZeroDivisionError else Inr (a / b))"


text \<open>
  \<^verbatim>\<open>a / b\<close> on two ints is the quotient rounded to the nearest float, and raises
  \<^verbatim>\<open>OverflowError\<close> (integer division result too large for a float) when that float
  would lie beyond the largest one, \<open>2 ^ 1024 - 2 ^ 971\<close>: that is from the magnitude
  \<open>2 ^ 1024 - 2 ^ 970\<close> on, half a unit in the last place above it. An int has no bound, so
  this branch is reachable; between two floats \<^verbatim>\<open>/\<close> raises on a zero divisor only.
\<close>

definition py_int_truediv :: "int \<Rightarrow> int \<Rightarrow> py_error + real" where
  "py_int_truediv a b =
     (if b = 0 then Inl ZeroDivisionError
      else if 2 ^ 1024 - 2 ^ 970 \<le> \<bar>real_of_int a / real_of_int b\<bar> then Inl OverflowError
      else Inr (real_of_int a / real_of_int b))"

definition py_getitem :: "'a list \<Rightarrow> int \<Rightarrow> py_error + 'a" where
  \<comment> \<open>\<^verbatim>\<open>xs[i]\<close>: the indices \<open>-len .. -1\<close> count from the end\<close>
  "py_getitem xs i =
     (if 0 \<le> i \<and> i < int (length xs) then Inr (xs ! nat i)
      else if i < 0 \<and> - int (length xs) \<le> i then Inr (xs ! nat (int (length xs) + i))
      else Inl IndexError)"

definition py_lookup :: "(string \<rightharpoonup> 'v) \<Rightarrow> string \<Rightarrow> py_error + 'v" where
  \<comment> \<open>\<^verbatim>\<open>d[key]\<close> on a dict\<close>
  "py_lookup d k = (case d k of None \<Rightarrow> Inl (KeyError k) | Some v \<Rightarrow> Inr v)"

definition py_min :: "real list \<Rightarrow> py_error + real" where
  "py_min xs = (case xs of [] \<Rightarrow> Inl ValueError | y # ys \<Rightarrow> Inr (fold min ys y))"

definition py_max :: "real list \<Rightarrow> py_error + real" where
  "py_max xs = (case xs of [] \<Rightarrow> Inl ValueError | y # ys \<Rightarrow> Inr (fold max ys y))"

definition py_int :: "real \<Rightarrow> int" where
  \<comment> \<open>\<^verbatim>\<open>int(x)\<close> on a float truncates towards zero\<close>
  "py_int x = (if x < 0 then \<lceil>x\<rceil> else \<lfloor>x\<rfloor>)"

subsection \<open>The \<^verbatim>\<open>statistics\<close> module of the standard library\<close>

text \<open>
  \<^verbatim>\<open>mean\<close>, \<^verbatim>\<open>stdev\<close>, \<^verbatim>\<open>median\<close> and \<^verbatim>\<open>quantiles\<close> follow CPython's
  \<^verbatim>\<open>Lib/statistics.py\<close>. That module computes sums exactly, in fractions:
  \<^verbatim>\<open>mean\<close> is \<open>total / n\<close>, and \<^verbatim>\<open>stdev\<close> is the square root of \<open>ssd / (n - 1)\<close> with
  \<open>ssd = (n * sxx - sx * sx) / n\<close>, \<open>sx\<close> the sum and \<open>sxx\<close> the sum of squares.
\<close>

definition statistics_mean :: "real list \<Rightarrow> py_error + real" where
  "statistics_mean data =
     (if length data < 1 then Inl StatisticsError
      else Inr (sum_list data / real (length data)))"

definition statistics_stdev :: "real list \<Rightarrow> py_error + real" where
  "statistics_stdev data =
     (let n = length data;
          sx = sum_list data;
          sxx = sum_list (map (\<lambda>x. x * x) data)
      in if n < 2 then Inl StatisticsError
         else Inr (sqrt (((real n * sxx - sx * sx) / real n) / real (n - 1))))"

text \<open>
  \<^verbatim>\<open>
  def median(data):
      data = sorted(data)
      n = len(data)
      if n == 0:
          raise StatisticsError("no median for empty data")
      if n % 2 == 1:
          return data[n // 2]
      else:
          i = n // 2
          return (data[i - 1] + data[i]) / 2
  \<close>
\<close>

definition statistics_median :: "real list \<Rightarrow> py_error + real" where
  "statistics_median data0 =
     (let data = sort data0; n = length data
      in if n = 0 then Inl StatisticsError
         else if n mod 2 = 1 then Inr (data ! (n div 2))
         else Inr ((data ! (n div 2 - 1) + data ! (n div 2)) / 2))"

text \<open>
  \<^verbatim>\<open>quantiles(data, n=100)\<close> runs with the default \<^verbatim>\<open>method='exclusive'\<close>:
  \<^verbatim>\<open>
      data = sorted(data)
      ld = len(data)
      if ld < 2:
          raise StatisticsError('must have at least two data points')
      m = ld + 1
      result = []
      for i in range(1, n):
          j = i * m // n
          j = 1 if j < 1 else ld-1 if j > ld-1 else j
          delta = i*m - j*n
          interpolated = (data[j - 1] * (n - delta) + data[j] * delta) / n
          result.append(interpolated)
      return result
  \<close>
  \<open>quantile_cut data n i\<close> is the body of the loop at \<open>i\<close>, on the sorted data.
\<close>

definition quantile_cut :: "real list \<Rightarrow> nat \<Rightarrow> nat \<Rightarrow> real" where
  "quantile_cut data n i =
     (let ld = length data;
          m = ld + 1;
          j0 = i * m div n;
          j = (if j0 < 1 then 1 else if j0 > ld - 1 then ld - 1 else j0);
          delta = int (i * m) - int (j * n)
      in (data ! (j - 1) * real_of_int (int n - delta) + data ! j * real_of_int delta)
           / real n)"

definition statistics_quantiles :: "real list \<Rightarrow> nat \<Rightarrow> py_error + real list" where
  "statistics_quantiles data0 n =
     (if n < 1 then Inl StatisticsError
      else let data = sort data0
           in if length data < 2 then Inl StatisticsError
              else Inr (map (quantile_cut data n) [1..<n]))"

section \<open>compare.py\<close>

text \<open>
  \<^verbatim>\<open>
  def calculate_impact(baseline, test):
      if baseline == 0:
          return 0.0
      return ((test - baseline) / baseline) * 100.0
  \<close>
\<close>

definition calculate_impact :: "real \<Rightarrow> real \<Rightarrow> py_error + real" where
  "calculate_impact baseline test =
     (if baseline = 0 then Inr 0
      else rbind (py_truediv (test - baseline) baseline) (\<lambda>q. Inr (q * 100)))"

text \<open>
  \<^verbatim>\<open>calculate_impact\<close> is called at two argument types. \<^verbatim>\<open>compare_throughput\<close> and
  \<^verbatim>\<open>compare_latency\<close> pass floats: that is \<open>calculate_impact\<close> above.
  \<^verbatim>\<open>compare_database_stats\<close> passes two ints, the counter deltas: then
  \<^verbatim>\<open>test - baseline\<close> is exact, \<^verbatim>\<open>/\<close> is the true division of two ints, and only the
  product with \<^verbatim>\<open>100.0\<close> is a float operation, which raises nothing. That is
  \<open>calculate_impact_int\<close>.
\<close>

definition calculate_impact_int :: "int \<Rightarrow> int \<Rightarrow> py_error + real" where
  "calculate_impact_int baseline test =
     (if baseline = 0 then Inr 0
      else rbind (py_int_truediv (test - baseline) baseline) (\<lambda>q. Inr (q * 100)))"

text \<open>
  The results of one benchmark run, as loaded from its JSON file: of that dict the
  comparison reads \<^verbatim>\<open>['throughput']['tps']\<close>, \<^verbatim>\<open>['latency_ms'][metric]\<close> and
  \<^verbatim>\<open>['database_stats']['start' | 'end'][key]\<close>. The two inner dicts keyed by a loop
  variable are maps, so that a missing key is a \<open>KeyError\<close>.
\<close>

type_synonym counters = "string \<rightharpoonup> int"

record database_stats =
  db_start :: counters
  db_end :: counters

record bench_results =
  throughput_tps :: real
  latency_ms :: "string \<rightharpoonup> real"
  database_stats :: database_stats

record throughput_comparison =
  ct_baseline_tps :: real
  ct_test_tps :: real
  ct_impact_pct :: real

definition compare_throughput ::
  "bench_results \<Rightarrow> bench_results \<Rightarrow> py_error + throughput_comparison" where
  "compare_throughput baseline test =
     (let baseline_tps = throughput_tps baseline; test_tps = throughput_tps test
      in rbind (calculate_impact baseline_tps test_tps) (\<lambda>impact.
           Inr \<lparr>ct_baseline_tps = baseline_tps, ct_test_tps = test_tps,
                ct_impact_pct = impact\<rparr>))"

record latency_comparison =
  cl_baseline_ms :: real
  cl_test_ms :: real
  cl_impact_pct :: real

fun compare_latency_loop ::
  "string list \<Rightarrow> bench_results \<Rightarrow> bench_results \<Rightarrow> (string \<rightharpoonup> latency_comparison)
     \<Rightarrow> py_error + (string \<rightharpoonup> latency_comparison)" where
  "compare_latency_loop [] baseline test metrics = Inr metrics"
| "compare_latency_loop (metric # rest) baseline test metrics =
     rbind (py_lookup (latency_ms baseline) metric) (\<lambda>baseline_val.
     rbind (py_lookup (latency_ms test) metric) (\<lambda>test_val.
     rbind (calculate_impact baseline_val test_val) (\<lambda>impact.
       compare_latency_loop rest baseline test
         (metrics(metric \<mapsto> \<lparr>cl_baseline_ms = baseline_val, cl_test_ms = test_val,
                               cl_impact_pct = impact\<rparr>)))))"

definition compare_latency ::
  "bench_results \<Rightarrow> bench_results \<Rightarrow> py_error + (string \<rightharpoonup> latency_comparison)" where
  "compare_latency baseline test =
     compare_latency_loop [''mean'', ''p50'', ''p95'', ''p99'', ''max''] baseline test Map.empty"

text \<open>
  \<^verbatim>\<open>
  def compare_database_stats(baseline, test):
      baseline_start = baseline['database_stats']['start']
      baseline_end = baseline['database_stats']['end']
      test_start = test['database_stats']['start']
      test_end = test['database_stats']['end']

      def delta(start, end, key):
          return end[key] - start[key]

      metrics = {}
      for key in ['xact_commit', 'xact_rollback', 'blks_read', 'blks_hit',
                  'tup_returned', 'tup_fetched', 'tup_inserted', 'tup_updated']:
          baseline_delta = delta(baseline_start, baseline_end, key)
          test_delta = delta(test_start, test_end, key)
          impact = calculate_impact(baseline_delta, test_delta)
          metrics[key] = {'baseline': baseline_delta, 'test': test_delta,
                          'impact_pct': impact, 'impact_formatted': format_impact(impact)}
      return metrics
  \<close>
\<close>

record counter_comparison =
  cs_baseline :: int
  cs_test :: int
  cs_impact_pct :: real

definition delta :: "counters \<Rightarrow> counters \<Rightarrow> string \<Rightarrow> py_error + int" where
  "delta start end' key =
     rbind (py_lookup end' key) (\<lambda>e. rbind (py_lookup start key) (\<lambda>s. Inr (e - s)))"

fun database_stats_loop ::
  "string list \<Rightarrow> counters \<Rightarrow> counters \<Rightarrow> counters \<Rightarrow> counters
     \<Rightarrow> (string \<rightharpoonup> counter_comparison) \<Rightarrow> py_error + (string \<rightharpoonup> counter_comparison)" where
  "database_stats_loop [] baseline_start baseline_end test_start test_end metrics = Inr metrics"
| "database_stats_loop (key # rest) baseline_start baseline_end test_start test_end metrics =
     rbind (delta baseline_start baseline_end key) (\<lambda>baseline_delta.
     rbind (delta test_start test_end key) (\<lambda>test_delta.
     rbind (calculate_impact_int baseline_delta test_delta) (\<lambda>impact.
       database_stats_loop rest baseline_start baseline_end test_start test_end
         (metrics(key \<mapsto> \<lparr>cs_baseline = baseline_delta, cs_test = test_delta,
                            cs_impact_pct = impact\<rparr>)))))"

definition counter_keys :: "string list" where
  "counter_keys = [''xact_commit'', ''xact_rollback'', ''blks_read'', ''blks_hit'',
                   ''tup_returned'', ''tup_fetched'', ''tup_inserted'', ''tup_updated'']"

definition compare_database_stats ::
  "bench_results \<Rightarrow> bench_results \<Rightarrow> py_error + (string \<rightharpoonup> counter_comparison)" where
  "compare_database_stats baseline test =
     database_stats_loop counter_keys
       (db_start (database_stats baseline)) (db_end (database_stats baseline))
       (db_start (database_stats test)) (db_end (database_stats test)) Map.empty"

text \<open>
  \<^verbatim>\<open>assess_impact\<close> returns one of five literal strings, each a mark, the tier and its
  bound: \<^verbatim>\<open>NEGLIGIBLE (<2% impact)\<close>, \<^verbatim>\<open>LOW (<5% impact)\<close>, \<^verbatim>\<open>MODERATE (<10% impact)\<close>,
  \<^verbatim>\<open>HIGH (<20% impact)\<close>, \<^verbatim>\<open>SEVERE (>20% impact)\<close>. The five strings are the five
  constructors of \<open>severity\<close>.
\<close>

datatype severity = NEGLIGIBLE | LOW | MODERATE | HIGH | SEVERE

definition assess_impact :: "real \<Rightarrow> real \<Rightarrow> severity" where
  "assess_impact throughput_impact latency_p95_impact =
     (if \<bar>throughput_impact\<bar> < 2 \<and> \<bar>latency_p95_impact\<bar> < 2 then NEGLIGIBLE
      else if \<bar>throughput_impact\<bar> < 5 \<and> \<bar>latency_p95_impact\<bar> < 5 then LOW
      else if \<bar>throughput_impact\<bar> < 10 \<and> \<bar>latency_p95_impact\<bar> < 10 then MODERATE
      else if \<bar>throughput_impact\<bar> < 20 \<and> \<bar>latency_p95_impact\<bar> < 20 then HIGH
      else SEVERE)"

section \<open>statistical_analysis.py\<close>

record RunStats =
  tps :: real
  tps_stddev :: real
  latency_mean :: real
  latency_p50 :: real
  latency_p95 :: real
  latency_p99 :: real
  latency_max :: real
  transactions :: int
  duration :: real

text \<open>
  \<^verbatim>\<open>
  def compute_percentiles(values):
      if not values:
          return {'p50': 0, 'p95': 0, 'p99': 0, 'max': 0, 'mean': 0, 'stddev': 0}
      sorted_values = sorted(values)
      n = len(sorted_values)
      return {
          'mean': statistics.mean(values),
          'stddev': statistics.stdev(values) if n > 1 else 0,
          'p50': sorted_values[int(n * 0.50)],
          'p95': sorted_values[int(n * 0.95)],
          'p99': sorted_values[int(n * 0.99)],
          'max': sorted_values[-1]
      }
  \<close>
  The dict has the same six keys on both paths, so it is a record.
\<close>

record percentiles =
  cp_mean :: real
  cp_stddev :: real
  cp_p50 :: real
  cp_p95 :: real
  cp_p99 :: real
  cp_max :: real

definition compute_percentiles :: "real list \<Rightarrow> py_error + percentiles" where
  "compute_percentiles values =
     (if values = [] then
        Inr \<lparr>cp_mean = 0, cp_stddev = 0, cp_p50 = 0, cp_p95 = 0, cp_p99 = 0, cp_max = 0\<rparr>
      else
        let sorted_values = sort values; n = length sorted_values in
        rbind (statistics_mean values) (\<lambda>mean.
        rbind (if n > 1 then statistics_stdev values else Inr 0) (\<lambda>stddev.
        rbind (py_getitem sorted_values (py_int (real n * 0.50))) (\<lambda>p50.
        rbind (py_getitem sorted_values (py_int (real n * 0.95))) (\<lambda>p95.
        rbind (py_getitem sorted_values (py_int (real n * 0.99))) (\<lambda>p99.
        rbind (py_getitem sorted_values (- 1)) (\<lambda>max_value.
          Inr \<lparr>cp_mean = mean, cp_stddev = stddev, cp_p50 = p50, cp_p95 = p95,
               cp_p99 = p99, cp_max = max_value\<rparr>)))))))"

text \<open>
  \<^verbatim>\<open>
  def compute_confidence_interval(values, confidence=0.95):
      if len(values) < 2:
          mean = values[0] if values else 0
          return (mean, mean, 0)
      n = len(values)
      mean = statistics.mean(values)
      stderr = statistics.stdev(values) / math.sqrt(n)
      t_critical = 1.96 if n > 30 else 2.0
      margin = t_critical * stderr
      return (mean - margin, mean + margin, margin)
  \<close>
\<close>

definition compute_confidence_interval ::
  "real list \<Rightarrow> real \<Rightarrow> py_error + (real \<times> real \<times> real)" where
  "compute_confidence_interval values confidence =
     (if length values < 2 then
        rbind (if values \<noteq> [] then py_getitem values 0 else Inr 0) (\<lambda>mean.
          Inr (mean, mean, 0))
      else
        let n = length values in
        rbind (statistics_mean values) (\<lambda>mean.
        rbind (statistics_stdev values) (\<lambda>sd.
        rbind (py_truediv sd (sqrt (real n))) (\<lambda>stderr.
          let t_critical = (if n > 30 then 1.96 else 2.0);
              margin = t_critical * stderr
          in Inr (mean - margin, mean + margin, margin)))))"

text \<open>
  \<^verbatim>\<open>
  def assess_results(tps_impact_pct, p99_impact_pct, p99_impact_ms):
      tps_status = 'OK'
      if tps_impact_pct < -3:
          tps_status = 'CRITICAL'
      elif tps_impact_pct < -1:
          tps_status = 'WARNING'
      p99_status = 'OK'
      if p99_impact_pct > 15 and p99_impact_ms > 5:
          p99_status = 'CRITICAL'
      elif p99_impact_pct > 5 and p99_impact_ms > 2:
          p99_status = 'WARNING'
      overall = 'PASS'
      if tps_status == 'CRITICAL' or p99_status == 'CRITICAL':
          overall = 'FAIL'
      elif tps_status == 'WARNING' or p99_status == 'WARNING':
          overall = 'WARNING'
      return {'tps_status': tps_status, 'p99_status': p99_status, 'overall': overall}
  \<close>
\<close>

record assessment =
  tps_status :: string
  p99_status :: string
  overall :: string

definition assess_results :: "real \<Rightarrow> real \<Rightarrow> real \<Rightarrow> assessment" where
  "assess_results tps_impact_pct p99_impact_pct p99_impact_ms =
     (let tps_status = (if tps_impact_pct < - 3 then ''CRITICAL''
                        else if tps_impact_pct < - 1 then ''WARNING'' else ''OK'');
          p99_status = (if p99_impact_pct > 15 \<and> p99_impact_ms > 5 then ''CRITICAL''
                        else if p99_impact_pct > 5 \<and> p99_impact_ms > 2 then ''WARNING''
                        else ''OK'');
          overall = (if tps_status = ''CRITICAL'' \<or> p99_status = ''CRITICAL'' then ''FAIL''
                     else if tps_status = ''WARNING'' \<or> p99_status = ''WARNING''
                     then ''WARNING'' else ''PASS'')
      in \<lparr>tps_status = tps_status, p99_status = p99_status, overall = overall\<rparr>)"

text \<open>
  \<^verbatim>\<open>analyze_workload(data)\<close> reads four lists out of \<^verbatim>\<open>data\<close> with
  \<^verbatim>\<open>data.get(key, [])\<close>: an absent key is the empty list.
\<close>

record workload_data =
  baseline_runs :: "RunStats list"
  enabled_runs :: "RunStats list"
  baseline_latencies :: "real list"
  enabled_latencies :: "real list"

record tps_summary =
  ts_mean :: real
  ts_stddev :: real
  ts_ci_low :: real
  ts_ci_high :: real
  ts_samples :: nat

record tps_analysis =
  ta_baseline :: tps_summary
  ta_enabled :: tps_summary
  ta_impact_pct :: real

record latency_impact =
  li_baseline_ms :: real
  li_enabled_ms :: real
  li_impact_pct :: real
  li_impact_ms :: real

datatype workload_analysis =
    Insufficient_data
  | Analysis tps_analysis "string \<rightharpoonup> latency_impact" assessment

text \<open>
  \<^verbatim>\<open>baseline_lat_stats\<close> is the dict of \<^verbatim>\<open>compute_percentiles\<close>, or \<^verbatim>\<open>{}\<close> when there are
  no latencies; \<^verbatim>\<open>baseline_lat_stats.get(metric, 0)\<close> reads it.
\<close>

definition lat_stats_get :: "percentiles option \<Rightarrow> string \<Rightarrow> real" where
  "lat_stats_get stats metric =
     (case stats of
        None \<Rightarrow> 0
      | Some d \<Rightarrow>
          if metric = ''mean'' then cp_mean d
          else if metric = ''stddev'' then cp_stddev d
          else if metric = ''p50'' then cp_p50 d
          else if metric = ''p95'' then cp_p95 d
          else if metric = ''p99'' then cp_p99 d
          else if metric = ''max'' then cp_max d
          else 0)"

text \<open>
  \<^verbatim>\<open>
      for metric in ['mean', 'p50', 'p95', 'p99', 'max']:
          baseline_val = baseline_lat_stats.get(metric, 0)
          enabled_val = enabled_lat_stats.get(metric, 0)
          if baseline_val > 0:
              impact_pct = ((enabled_val - baseline_val) / baseline_val) * 100
              impact_ms = enabled_val - baseline_val
          else:
              impact_pct = 0
              impact_ms = 0
          latency_impact[metric] = {...}
  \<close>
\<close>

fun latency_impact_loop ::
  "string list \<Rightarrow> percentiles option \<Rightarrow> percentiles option \<Rightarrow> (string \<rightharpoonup> latency_impact)
     \<Rightarrow> py_error + (string \<rightharpoonup> latency_impact)" where
  "latency_impact_loop [] baseline_lat_stats enabled_lat_stats acc = Inr acc"
| "latency_impact_loop (metric # rest) baseline_lat_stats enabled_lat_stats acc =
     (let baseline_val = lat_stats_get baseline_lat_stats metric;
          enabled_val = lat_stats_get enabled_lat_stats metric
      in rbind (if baseline_val > 0
                then rbind (py_truediv (enabled_val - baseline_val) baseline_val) (\<lambda>q.
                       Inr (q * 100, enabled_val - baseline_val))
                else Inr (0, 0)) (\<lambda>(impact_pct, impact_ms).
           latency_impact_loop rest baseline_lat_stats enabled_lat_stats
             (acc(metric \<mapsto> \<lparr>li_baseline_ms = baseline_val, li_enabled_ms = enabled_val,
                              li_impact_pct = impact_pct, li_impact_ms = impact_ms\<rparr>))))"

definition optional_percentiles :: "real list \<Rightarrow> py_error + percentiles option" where
  \<comment> \<open>\<^verbatim>\<open>compute_percentiles(xs) if xs else {}\<close>\<close>
  "optional_percentiles xs =
     (if xs \<noteq> [] then rbind (compute_percentiles xs) (\<lambda>d. Inr (Some d)) else Inr None)"

definition optional_stdev :: "real list \<Rightarrow> py_error + real" where
  \<comment> \<open>\<^verbatim>\<open>statistics.stdev(xs) if len(xs) > 1 else 0\<close>\<close>
  "optional_stdev xs = (if length xs > 1 then statistics_stdev xs else Inr 0)"

text \<open>
  \<^verbatim>\<open>
  def analyze_workload(data):
      ...
      if not baseline_runs or not enabled_runs:
          return {'error': 'Insufficient data'}
      baseline_tps = [r.tps for r in baseline_runs]
      enabled_tps = [r.tps for r in enabled_runs]
      baseline_tps_mean = statistics.mean(baseline_tps)
      enabled_tps_mean = statistics.mean(enabled_tps)
      tps_impact_pct = ((enabled_tps_mean - baseline_tps_mean) / baseline_tps_mean) * 100
      baseline_tps_ci = compute_confidence_interval(baseline_tps)
      enabled_tps_ci = compute_confidence_interval(enabled_tps)
      baseline_lat_stats = compute_percentiles(baseline_latencies) if baseline_latencies else {}
      enabled_lat_stats = compute_percentiles(enabled_latencies) if enabled_latencies else {}
      (the latency loop)
      assessment = assess_results(tps_impact_pct,
          latency_impact.get('p99', {}).get('impact_pct', 0),
          latency_impact.get('p99', {}).get('impact_ms', 0))
      return {'tps': {...}, 'latency': latency_impact, 'assessment': assessment}
  \<close>
\<close>

definition analyze_workload :: "workload_data \<Rightarrow> py_error + workload_analysis" where
  "analyze_workload data =
     (if baseline_runs data = [] \<or> enabled_runs data = [] then Inr Insufficient_data
      else
        let baseline_tps = map tps (baseline_runs data);
            enabled_tps = map tps (enabled_runs data) in
        rbind (statistics_mean baseline_tps) (\<lambda>baseline_tps_mean.
        rbind (statistics_mean enabled_tps) (\<lambda>enabled_tps_mean.
        rbind (py_truediv (enabled_tps_mean - baseline_tps_mean) baseline_tps_mean) (\<lambda>q.
        let tps_impact_pct = q * 100 in
        rbind (compute_confidence_interval baseline_tps 0.95) (\<lambda>baseline_tps_ci.
        rbind (compute_confidence_interval enabled_tps 0.95) (\<lambda>enabled_tps_ci.
        rbind (optional_percentiles (baseline_latencies data)) (\<lambda>baseline_lat_stats.
        rbind (optional_percentiles (enabled_latencies data)) (\<lambda>enabled_lat_stats.
        rbind (latency_impact_loop [''mean'', ''p50'', ''p95'', ''p99'', ''max'']
                 baseline_lat_stats enabled_lat_stats Map.empty) (\<lambda>latency.
        let assessed = assess_results tps_impact_pct
              (case latency ''p99'' of None \<Rightarrow> 0 | Some e \<Rightarrow> li_impact_pct e)
              (case latency ''p99'' of None \<Rightarrow> 0 | Some e \<Rightarrow> li_impact_ms e) in
        rbind (optional_stdev baseline_tps) (\<lambda>baseline_sd.
        rbind (optional_stdev enabled_tps) (\<lambda>enabled_sd.
          Inr (Analysis
            \<lparr>ta_baseline = \<lparr>ts_mean = baseline_tps_mean, ts_stddev = baseline_sd,
                             ts_ci_low = fst baseline_tps_ci,
                             ts_ci_high = fst (snd baseline_tps_ci),
                             ts_samples = length baseline_tps\<rparr>,
             ta_enabled = \<lparr>ts_mean = enabled_tps_mean, ts_stddev = enabled_sd,
                            ts_ci_low = fst enabled_tps_ci,
                            ts_ci_high = fst (snd enabled_tps_ci),
                            ts_samples = length enabled_tps\<rparr>,
             ta_impact_pct = tps_impact_pct\<rparr>
            latency assessed))))))))))))"

section \<open>ddl_analyzer.py\<close>

record DDLOperation =
  operation_id :: int
  ddl_type :: string
  start_time :: string
  end_time :: string
  duration_ms :: real
  was_blocked :: bool
  blocked_by :: "string option"
  lock_wait_ms :: "real option"

text \<open>
  \<^verbatim>\<open>
      @property
      def blocked_by_flight_recorder(self):
          if not self.was_blocked or not self.blocked_by:
              return False
          return 'flight_recorder' in self.blocked_by.lower()
  \<close>
  A string is a list of bytes; \<^verbatim>\<open>lower\<close> maps the letters \<open>A .. Z\<close> (65 .. 90) to
  \<open>a .. z\<close>, which adds 32: in that range bit 5 is clear, and the sum sets it.
\<close>

definition py_lower_char :: "char \<Rightarrow> char" where
  "py_lower_char c =
     (case c of Char b0 b1 b2 b3 b4 b5 b6 b7 \<Rightarrow>
        if 65 \<le> (of_char c :: nat) \<and> (of_char c :: nat) \<le> 90
        then Char b0 b1 b2 b3 b4 True b6 b7 else c)"

definition py_lower :: "string \<Rightarrow> string" where
  "py_lower s = map py_lower_char s"

fun py_contains :: "string \<Rightarrow> string \<Rightarrow> bool" where
  \<comment> \<open>\<^verbatim>\<open>needle in haystack\<close>\<close>
  "py_contains needle [] = (needle = [])"
| "py_contains needle (c # cs) = (prefix needle (c # cs) \<or> py_contains needle cs)"

definition blocked_by_flight_recorder :: "DDLOperation \<Rightarrow> bool" where
  "blocked_by_flight_recorder op =
     (case blocked_by op of
        None \<Rightarrow> False
      | Some agent \<Rightarrow>
          if \<not> was_blocked op \<or> agent = [] then False
          else py_contains ''flight_recorder'' (py_lower agent))"

text \<open>
  \<^verbatim>\<open>
  class DDLAnalyzer:
      def __init__(self, operations):
          self.operations = [DDLOperation(**op) for op in operations]
          self.total_count = len(self.operations)
  \<close>
\<close>

record DDLAnalyzer =
  operations :: "DDLOperation list"
  total_count :: nat

definition DDLAnalyzer_init :: "DDLOperation list \<Rightarrow> DDLAnalyzer" where
  "DDLAnalyzer_init ops = \<lparr>operations = ops, total_count = length ops\<rparr>"

text \<open>
  \<^verbatim>\<open>
      def percentile(self, values, p):
          if not values:
              return 0.0
          return statistics.quantiles(sorted(values), n=100)[int(p) - 1] \
              if len(values) > 1 else values[0]
  \<close>
\<close>

definition percentile :: "DDLAnalyzer \<Rightarrow> real list \<Rightarrow> real \<Rightarrow> py_error + real" where
  "percentile self values p =
     (if values = [] then Inr 0
      else if length values > 1 then
        rbind (statistics_quantiles (sort values) 100) (\<lambda>cuts. py_getitem cuts (py_int p - 1))
      else py_getitem values 0)"

text \<open>
  \<^verbatim>\<open>
      def duration_stats(self, operations=None):
          ops = operations if operations is not None else self.operations
          if not ops:
              return {'count': 0, 'min': 0, 'max': 0, 'mean': 0, 'median': 0,
                      'p95': 0, 'p99': 0, 'stddev': 0}
          durations = [op.duration_ms for op in ops]
          return {
              'count': len(durations),
              'min': min(durations),
              'max': max(durations),
              'mean': statistics.mean(durations),
              'median': statistics.median(durations),
              'p95': self.percentile(durations, 95),
              'p99': self.percentile(durations, 99),
              'stddev': statistics.stdev(durations) if len(durations) > 1 else 0
          }
  \<close>
\<close>

record duration_summary =
  ds_count :: nat
  ds_min :: real
  ds_max :: real
  ds_mean :: real
  ds_median :: real
  ds_p95 :: real
  ds_p99 :: real
  ds_stddev :: real

definition duration_stats ::
  "DDLAnalyzer \<Rightarrow> DDLOperation list option \<Rightarrow> py_error + duration_summary" where
  "duration_stats self operations_arg =
     (let ops = (case operations_arg of Some given \<Rightarrow> given | None \<Rightarrow> operations self) in
      if ops = [] then
        Inr \<lparr>ds_count = 0, ds_min = 0, ds_max = 0, ds_mean = 0, ds_median = 0,
             ds_p95 = 0, ds_p99 = 0, ds_stddev = 0\<rparr>
      else
        let durations = map duration_ms ops in
        rbind (py_min durations) (\<lambda>lo.
        rbind (py_max durations) (\<lambda>hi.
        rbind (statistics_mean durations) (\<lambda>mean.
        rbind (statistics_median durations) (\<lambda>med.
        rbind (percentile self durations 95) (\<lambda>p95.
        rbind (percentile self durations 99) (\<lambda>p99.
        rbind (if length durations > 1 then statistics_stdev durations else Inr 0) (\<lambda>sd.
          Inr \<lparr>ds_count = length durations, ds_min = lo, ds_max = hi, ds_mean = mean,
               ds_median = med, ds_p95 = p95, ds_p99 = p99, ds_stddev = sd\<rparr>))))))))"

text \<open>
  The share of operations blocked by the recorder, as three methods compute it:
  \<^verbatim>\<open>(len(fr_blocked) / self.total_count * 100) if self.total_count > 0 else 0\<close>.
\<close>

definition pct_of_total :: "DDLAnalyzer \<Rightarrow> nat \<Rightarrow> py_error + real" where
  "pct_of_total self k =
     (if total_count self > 0
      then rbind (py_truediv (real k) (real (total_count self))) (\<lambda>q. Inr (q * 100))
      else Inr 0)"

text \<open>
  \<^verbatim>\<open>
      def blocking_analysis(self):
          blocked = [op for op in self.operations if op.was_blocked]
          fr_blocked = [op for op in self.operations if op.blocked_by_flight_recorder]
          return {
              'total_blocked': len(blocked),
              'total_blocked_pct': (len(blocked) / self.total_count * 100)
                                   if self.total_count > 0 else 0,
              'fr_blocked': len(fr_blocked),
              'fr_blocked_pct': (len(fr_blocked) / self.total_count * 100)
                                if self.total_count > 0 else 0,
              'blocked_stats': self.duration_stats(blocked),
              'fr_blocked_stats': self.duration_stats(fr_blocked),
          }
  \<close>
\<close>

record blocking_report =
  total_blocked :: nat
  total_blocked_pct :: real
  fr_blocked :: nat
  fr_blocked_pct :: real
  blocked_stats :: duration_summary
  fr_blocked_stats :: duration_summary

definition blocking_analysis :: "DDLAnalyzer \<Rightarrow> py_error + blocking_report" where
  "blocking_analysis self =
     (let blocked = filter was_blocked (operations self);
          fr = filter blocked_by_flight_recorder (operations self) in
      rbind (pct_of_total self (length blocked)) (\<lambda>blocked_pct.
      rbind (pct_of_total self (length fr)) (\<lambda>fr_pct.
      rbind (duration_stats self (Some blocked)) (\<lambda>stats.
      rbind (duration_stats self (Some fr)) (\<lambda>fr_stats.
        Inr \<lparr>total_blocked = length blocked, total_blocked_pct = blocked_pct,
             fr_blocked = length fr, fr_blocked_pct = fr_pct,
             blocked_stats = stats, fr_blocked_stats = fr_stats\<rparr>)))))"



text \<open>
  \<^verbatim>\<open>
      def risk_assessment(self, interval_seconds=180):
          fr_blocked_pct = (as above)
          fr_blocked = [op for op in self.operations if op.blocked_by_flight_recorder]
          avg_delay = statistics.mean([op.duration_ms for op in fr_blocked]) if fr_blocked else 0
          if fr_blocked_pct < 1:
              risk = "LOW"
              recommendation = "Safe for production use with high DDL workloads"
          elif fr_blocked_pct < 3:
              risk = "MODERATE"
              recommendation = "Safe for typical workloads. Monitor if >50 DDL ops/hour"
          elif fr_blocked_pct < 5:
              risk = "MODERATE-HIGH"
              recommendation = "Consider emergency mode (300s) during DDL-heavy periods"
          else:
              risk = "HIGH"
              recommendation = "Use emergency mode (300s) or schedule DDL during low-traffic windows"
          if avg_delay > 100:
              risk = risk + " (HIGH DELAY)"
              recommendation += f"\nAverage delay {avg_delay:.1f}ms is concerning for latency-sensitive applications"
          return risk, recommendation
  \<close>
  The tiering on the two numbers is \<open>risk_tier\<close>. The rendering \<^verbatim>\<open>{avg_delay:.1f}\<close> of a
  float with one decimal is a parameter, \<open>fmt_1f\<close>.
\<close>

definition risk_tier :: "(real \<Rightarrow> string) \<Rightarrow> real \<Rightarrow> real \<Rightarrow> string \<times> string" where
  "risk_tier fmt_1f fr_pct avg_delay =
     (let (risk, recommendation) =
            (if fr_pct < 1 then
               (''LOW'', ''Safe for production use with high DDL workloads'')
             else if fr_pct < 3 then
               (''MODERATE'', ''Safe for typical workloads. Monitor if >50 DDL ops/hour'')
             else if fr_pct < 5 then
               (''MODERATE-HIGH'', ''Consider emergency mode (300s) during DDL-heavy periods'')
             else
               (''HIGH'',
                ''Use emergency mode (300s) or schedule DDL during low-traffic windows''))
      in if avg_delay > 100 then
           (risk @ '' (HIGH DELAY)'',
            recommendation @ [CHR 0x0A] @ ''Average delay '' @ fmt_1f avg_delay
              @ ''ms is concerning for latency-sensitive applications'')
         else (risk, recommendation))"

definition risk_assessment ::
  "(real \<Rightarrow> string) \<Rightarrow> DDLAnalyzer \<Rightarrow> int \<Rightarrow> py_error + (string \<times> string)" where
  "risk_assessment fmt_1f self interval_seconds =
     (let fr = filter blocked_by_flight_recorder (operations self) in
      rbind (pct_of_total self (length fr)) (\<lambda>fr_pct.
      rbind (if fr \<noteq> [] then statistics_mean (map duration_ms fr) else Inr 0) (\<lambda>avg_delay.
        Inr (risk_tier fmt_1f fr_pct avg_delay))))"

section \<open>Example inputs\<close>

text \<open>
  Two DDL operation records as the timing file lists them: one that ran unblocked, one that
  waited for a lock held by the recorder.
\<close>

definition op_free :: DDLOperation where
  "op_free = \<lparr>operation_id = 1, ddl_type = ''ALTER'', start_time = ''t0'', end_time = ''t1'',
     duration_ms = 1, was_blocked = False, blocked_by = None, lock_wait_ms = None\<rparr>"

definition op_held :: DDLOperation where
  "op_held = \<lparr>operation_id = 2, ddl_type = ''VACUUM'', start_time = ''t0'', end_time = ''t1'',
     duration_ms = 2, was_blocked = True, blocked_by = Some ''Flight_Recorder.collect'',
     lock_wait_ms = Some 1\<rparr>"

text \<open>
  Two benchmark runs as \<^verbatim>\<open>parse_pgbench_summary\<close> builds them: one from a summary that
  reports \<^verbatim>\<open>tps = 0.000000\<close> and \<^verbatim>\<open>latency average = 0.000 ms\<close>, one from a run at
  100 transactions per second; and a workload with the first as its only baseline run.
  Then four result files for the counter comparison: in the first every counter fell from
  1000 to 400 between the snapshots (the statistics were reset), in the second every
  counter rose from 0 to 500, in the third from 0 to 1, and in the fourth from 0 to
  \<open>10 ^ 400\<close>, an integer that a JSON file can hold and no float can.
\<close>

definition run_idle :: RunStats where
  "run_idle = \<lparr>tps = 0, tps_stddev = 0, latency_mean = 0, latency_p50 = 0, latency_p95 = 0,
     latency_p99 = 0, latency_max = 0, transactions = 0, duration = 0\<rparr>"

definition run_busy :: RunStats where
  "run_busy = \<lparr>tps = 100, tps_stddev = 1, latency_mean = 10, latency_p50 = 10,
     latency_p95 = 10, latency_p99 = 10, latency_max = 10, transactions = 6000, duration = 0\<rparr>"

definition workload_idle_baseline :: workload_data where
  "workload_idle_baseline = \<lparr>baseline_runs = [run_idle], enabled_runs = [run_busy],
     baseline_latencies = [], enabled_latencies = []\<rparr>"

definition counters_at :: "int \<Rightarrow> counters" where
  "counters_at v = map_of (map (\<lambda>k. (k, v)) counter_keys)"

definition results_reset :: bench_results where
  "results_reset = \<lparr>throughput_tps = 100, latency_ms = Map.empty,
     database_stats = \<lparr>db_start = counters_at 1000, db_end = counters_at 400\<rparr>\<rparr>"

definition results_steady :: bench_results where
  "results_steady = \<lparr>throughput_tps = 100, latency_ms = Map.empty,
     database_stats = \<lparr>db_start = counters_at 0, db_end = counters_at 500\<rparr>\<rparr>"

definition results_unit :: bench_results where
  "results_unit = \<lparr>throughput_tps = 100, latency_ms = Map.empty,
     database_stats = \<lparr>db_start = counters_at 0, db_end = counters_at 1\<rparr>\<rparr>"

definition results_huge :: bench_results where
  "results_huge = \<lparr>throughput_tps = 100, latency_ms = Map.empty,
     database_stats = \<lparr>db_start = counters_at 0, db_end = counters_at (10 ^ 400)\<rparr>\<rparr>"

section \<open>Properties\<close>

subsection \<open>Helper facts\<close>

lemma operations_init: "operations (DDLAnalyzer_init ops) = ops"
  by (simp add: DDLAnalyzer_init_def)

lemma pct_of_total_init:
  "pct_of_total (DDLAnalyzer_init ops) k =
     Inr (if ops = [] then 0 else real k / real (length ops) * 100)"
  by (simp add: pct_of_total_def DDLAnalyzer_init_def py_truediv_def)

lemma statistics_mean_nonempty:
  "xs \<noteq> [] \<Longrightarrow> statistics_mean xs = Inr (sum_list xs / real (length xs))"
  by (cases xs) (simp_all add: statistics_mean_def)

lemma op_held_is_recorder: "blocked_by_flight_recorder op_held"
  by (simp add: blocked_by_flight_recorder_def op_held_def py_lower_def py_lower_char_def)

lemma op_free_not_recorder: "\<not> blocked_by_flight_recorder op_free"
  by (simp add: blocked_by_flight_recorder_def op_free_def)

lemma calculate_impact_total:
  "calculate_impact b t = Inr (if b = 0 then 0 else (t - b) / b * 100)"
  by (simp add: calculate_impact_def py_truediv_def)

lemma py_int_numeral [simp]: "py_int (numeral k) = numeral k"
  by (simp add: py_int_def)

lemma sort_sort_id: "sort (sort xs) = sort (xs :: real list)"
  by (simp add: sorted_sort_id)

lemma statistics_quantiles_many:
  "1 < length xs \<Longrightarrow>
     statistics_quantiles xs 100 = Inr (map (quantile_cut (sort xs) 100) [1..<100])"
  by (simp add: statistics_quantiles_def Let_def)

lemma percentile_many:
  assumes "1 < length xs" and "k = 95 \<or> k = 99"
  shows "percentile self xs (real k) = Inr (quantile_cut (sort xs) 100 k)"
proof -
  have ne: "xs \<noteq> []" using assms(1) by auto
  have q: "statistics_quantiles (sort xs) 100 = Inr (map (quantile_cut (sort xs) 100) [1..<100])"
    using statistics_quantiles_many [of "sort xs"] assms(1) by (simp add: sort_sort_id)
  from assms(2) show ?thesis
  proof
    assume "k = 95"
    then show ?thesis using assms(1) ne
      by (simp add: percentile_def q py_getitem_def)
  next
    assume "k = 99"
    then show ?thesis using assms(1) ne
      by (simp add: percentile_def q py_getitem_def)
  qed
qed

lemma percentile_single: "percentile self [x] p = Inr x"
  by (simp add: percentile_def py_getitem_def)





lemma rbind_Inr_projr: "\<not> isl x \<Longrightarrow> rbind x f = f (projr x)"
  by (cases x) simp_all

lemma py_min_nonempty: "xs \<noteq> [] \<Longrightarrow> py_min xs = Inr (Min (set xs))"
proof (cases xs)
  case (Cons a l)
  have "fold min l a = Min (set (a # l))" by (rule Min.set_eq_fold [symmetric])
  then show ?thesis using Cons by (simp add: py_min_def)
qed simp

lemma py_max_nonempty: "xs \<noteq> [] \<Longrightarrow> py_max xs = Inr (Max (set xs))"
proof (cases xs)
  case (Cons a l)
  have "fold max l a = Max (set (a # l))" by (rule Max.set_eq_fold [symmetric])
  then show ?thesis using Cons by (simp add: py_max_def)
qed simp

lemma statistics_median_nonempty:
  "xs \<noteq> [] \<Longrightarrow> statistics_median xs =
     Inr (if odd (length xs) then sort xs ! (length xs div 2)
          else (sort xs ! (length xs div 2 - 1) + sort xs ! (length xs div 2)) / 2)"
proof -
  assume "xs \<noteq> []"
  then have "sort xs \<noteq> []" by (metis length_0_conv length_sort)
  then show ?thesis
    by (simp add: statistics_median_def Let_def odd_iff_mod_2_eq_one)
qed






lemma statistics_stdev_many:
  "1 < length xs \<Longrightarrow> \<not> isl (statistics_stdev xs)"
  by (simp add: statistics_stdev_def Let_def)

lemma percentile_cases:
  assumes "xs \<noteq> []" and "k = 95 \<or> k = 99"
  shows "percentile self xs (real k) =
     Inr (if 1 < length xs then quantile_cut (sort xs) 100 k else hd xs)"
proof (cases "1 < length xs")
  case True
  then show ?thesis using percentile_many [OF True assms(2)] by simp
next
  case False
  then obtain x where "xs = [x]" using assms(1)
    by (cases xs) (auto simp: not_less)
  then show ?thesis using False by (simp add: percentile_single)
qed

lemma duration_stats_nonempty:
  assumes "ops \<noteq> []"
  shows "duration_stats self (Some ops) =
     Inr \<lparr>ds_count = length ops,
          ds_min = Min (set (map duration_ms ops)),
          ds_max = Max (set (map duration_ms ops)),
          ds_mean = sum_list (map duration_ms ops) / real (length ops),
          ds_median = projr (statistics_median (map duration_ms ops)),
          ds_p95 = (if 1 < length ops then quantile_cut (sort (map duration_ms ops)) 100 95
                    else hd (map duration_ms ops)),
          ds_p99 = (if 1 < length ops then quantile_cut (sort (map duration_ms ops)) 100 99
                    else hd (map duration_ms ops)),
          ds_stddev = (if 1 < length ops then projr (statistics_stdev (map duration_ms ops))
                       else 0)\<rparr>"
proof -
  let ?ds = "map duration_ms ops"
  have ne: "?ds \<noteq> []" using assms by simp
  have med: "\<not> isl (statistics_median ?ds)"
    by (simp add: statistics_median_nonempty [OF ne])
  have p95: "percentile self ?ds 95 =
      Inr (if 1 < length ops then quantile_cut (sort ?ds) 100 95 else hd ?ds)"
    using percentile_cases [OF ne, of 95 self] by simp
  have p99: "percentile self ?ds 99 =
      Inr (if 1 < length ops then quantile_cut (sort ?ds) 100 99 else hd ?ds)"
    using percentile_cases [OF ne, of 99 self] by simp
  have sd: "rbind (if 1 < length ops then statistics_stdev ?ds else Inr 0) f =
      f (if 1 < length ops then projr (statistics_stdev ?ds) else 0)"
    for f :: "real \<Rightarrow> py_error + duration_summary"
    using statistics_stdev_many [of ?ds] by (simp add: rbind_Inr_projr)
  show ?thesis
    unfolding duration_stats_def Let_def
    using assms
    by (simp only: option.case if_False length_map py_min_nonempty [OF ne]
        py_max_nonempty [OF ne] statistics_mean_nonempty [OF ne] rbind_Inr_projr [OF med]
        p95 p99 sd rbind.simps)
qed





lemma duration_stats_total: "\<not> isl (duration_stats self (Some xs))"
proof (cases "xs = []")
  case True
  then show ?thesis by (simp add: duration_stats_def)
next
  case False
  then show ?thesis by (simp add: duration_stats_nonempty [OF False])
qed

lemma recorder_implies_blocked:
  "blocked_by_flight_recorder op \<Longrightarrow>
     was_blocked op \<and> blocked_by op \<noteq> None \<and> blocked_by op \<noteq> Some []"
  by (auto simp add: blocked_by_flight_recorder_def split: option.splits if_splits)

lemma length_filter_mono:
  "(\<And>x. x \<in> set xs \<Longrightarrow> P x \<Longrightarrow> Q x) \<Longrightarrow> length (filter P xs) \<le> length (filter Q xs)"
  by (induction xs) auto

lemma sum_sq_dev:
  fixes c :: real
  shows "sum_list (map (\<lambda>x. (x - c) * (x - c)) xs) =
     sum_list (map (\<lambda>x. x * x) xs) - 2 * c * sum_list xs + real (length xs) * c * c"
  by (induction xs) (simp_all add: algebra_simps)

lemma sum_sq_ge:
  fixes xs :: "real list"
  shows "sum_list xs * sum_list xs \<le> real (length xs) * sum_list (map (\<lambda>x. x * x) xs)"
proof (cases "xs = []")
  case True
  then show ?thesis by simp
next
  case False
  define n where "n = real (length xs)"
  define sx where "sx = sum_list xs"
  define sxx where "sxx = sum_list (map (\<lambda>x. x * x) xs)"
  have npos: "0 < n" using False by (simp add: n_def)
  have "0 \<le> sum_list (map (\<lambda>x. (x - sx / n) * (x - sx / n)) xs)"
    by (intro sum_list_nonneg) auto
  then have "0 \<le> sxx - 2 * (sx / n) * sx + n * (sx / n) * (sx / n)"
    by (simp add: sum_sq_dev sx_def sxx_def n_def)
  then have "0 \<le> n * (sxx - 2 * (sx / n) * sx + n * (sx / n) * (sx / n))"
    using npos by simp
  also have "n * (sxx - 2 * (sx / n) * sx + n * (sx / n) * (sx / n)) = n * sxx - sx * sx"
    using npos by (simp add: field_simps)
  finally show ?thesis by (simp add: n_def sx_def sxx_def)
qed

lemma statistics_stdev_nonneg:
  assumes "2 \<le> length xs"
  shows "\<exists>sd. statistics_stdev xs = Inr sd \<and> 0 \<le> sd"
proof -
  have "0 \<le> (real (length xs) * sum_list (map (\<lambda>x. x * x) xs) - sum_list xs * sum_list xs)
            / real (length xs) / real (length xs - 1)"
    using sum_sq_ge [of xs] by (intro divide_nonneg_nonneg) simp_all
  then show ?thesis using assms by (simp add: statistics_stdev_def Let_def)
qed

lemma delta_present:
  "s k = Some a \<Longrightarrow> e k = Some b \<Longrightarrow> delta s e k = Inr (b - a)"
  by (simp add: delta_def py_lookup_def)

lemma calculate_impact_int_cases:
  "calculate_impact_int b t =
     (if b \<noteq> 0 \<and> 2 ^ 1024 - 2 ^ 970 \<le> \<bar>real_of_int (t - b) / real_of_int b\<bar>
      then Inl OverflowError
      else Inr (if b = 0 then 0 else real_of_int (t - b) / real_of_int b * 100))"
  unfolding calculate_impact_int_def py_int_truediv_def by (simp del: power_numeral)

lemma calculate_impact_int_overflow_iff:
  "(calculate_impact_int b t = Inl OverflowError) =
     (b \<noteq> 0 \<and> 2 ^ 1024 - 2 ^ 970 \<le> \<bar>real_of_int (t - b) / real_of_int b\<bar>)"
  unfolding calculate_impact_int_cases by (simp del: power_numeral)

lemma calculate_impact_int_not_isl:
  "calculate_impact_int b t \<noteq> Inl OverflowError \<Longrightarrow> \<not> isl (calculate_impact_int b t)"
  unfolding calculate_impact_int_cases by (simp del: power_numeral split: if_splits)

lemma calculate_impact_int_result:
  assumes "calculate_impact_int b t \<noteq> Inl OverflowError"
  shows "calculate_impact_int b t = Inr (projr (calculate_impact_int b t))"
  using calculate_impact_int_not_isl [OF assms] by (cases "calculate_impact_int b t") simp_all

lemma database_stats_loop_result:
  assumes "\<forall>k \<in> set keys. bsm k = Some (bs k) \<and> bem k = Some (be k)
             \<and> tsm k = Some (ts k) \<and> tem k = Some (te k)"
  shows "database_stats_loop keys bsm bem tsm tem acc =
     (if \<exists>k \<in> set keys. calculate_impact_int (be k - bs k) (te k - ts k) = Inl OverflowError
      then Inl OverflowError
      else Inr (\<lambda>k. if k \<in> set keys
                     then Some \<lparr>cs_baseline = be k - bs k, cs_test = te k - ts k,
                                cs_impact_pct =
                                  projr (calculate_impact_int (be k - bs k) (te k - ts k))\<rparr>
                     else acc k))"
  using assms
proof (induction keys arbitrary: acc)
  case Nil
  then show ?case by simp
next
  case (Cons key rest)
  have v: "bsm key = Some (bs key)" "bem key = Some (be key)"
    "tsm key = Some (ts key)" "tem key = Some (te key)"
    using Cons.prems by simp_all
  have rest: "\<forall>k \<in> set rest. bsm k = Some (bs k) \<and> bem k = Some (be k)
             \<and> tsm k = Some (ts k) \<and> tem k = Some (te k)"
    using Cons.prems by simp
  let ?c = "calculate_impact_int (be key - bs key) (te key - ts key)"
  show ?case
  proof (cases "?c = Inl OverflowError")
    case True
    then show ?thesis by (simp add: delta_present v)
  next
    case False
    let ?e = "\<lparr>cs_baseline = be key - bs key, cs_test = te key - ts key,
               cs_impact_pct = projr ?c\<rparr>"
    have c: "\<not> isl ?c" by (rule calculate_impact_int_not_isl [OF False])
    have step: "database_stats_loop (key # rest) bsm bem tsm tem acc =
        database_stats_loop rest bsm bem tsm tem (acc(key \<mapsto> ?e))"
      by (simp add: delta_present v rbind_Inr_projr [OF c])
    show ?thesis
      unfolding step Cons.IH [OF rest] using False by (auto simp: fun_eq_iff)
  qed
qed

lemma bounded_counters_no_overflow:
  fixes s1 e1 s2 e2 :: int
  assumes "\<bar>s1\<bar> < 2 ^ 63" "\<bar>e1\<bar> < 2 ^ 63" "\<bar>s2\<bar> < 2 ^ 63" "\<bar>e2\<bar> < 2 ^ 63"
  shows "calculate_impact_int (e1 - s1) (e2 - s2) \<noteq> Inl OverflowError"
proof (cases "e1 - s1 = 0")
  case True
  then show ?thesis by (simp add: calculate_impact_int_def)
next
  case False
  define b where "b = e1 - s1"
  define d where "d = (e2 - s2) - b"
  have b1: "1 \<le> \<bar>real_of_int b\<bar>" using False by (simp add: b_def)
  have "\<bar>d\<bar> < 2 ^ 65" using assms by (simp add: d_def b_def)
  then have d65: "\<bar>real_of_int d\<bar> < 2 ^ 65"
    by (metis of_int_abs of_int_less_numeral_power_cancel_iff)
  have "\<bar>real_of_int d / real_of_int b\<bar> = \<bar>real_of_int d\<bar> / \<bar>real_of_int b\<bar>" by simp
  also have "\<dots> \<le> \<bar>real_of_int d\<bar> / 1" using b1 by (intro divide_left_mono) simp_all
  finally have "\<bar>real_of_int d / real_of_int b\<bar> < 2 ^ 65" using d65 by simp
  moreover have "(2 :: real) ^ 65 \<le> 2 ^ 1024 - 2 ^ 970" by simp
  ultimately have "\<not> 2 ^ 1024 - 2 ^ 970 \<le> \<bar>real_of_int d / real_of_int b\<bar>" by linarith
  then show ?thesis
    unfolding calculate_impact_int_overflow_iff b_def [symmetric] d_def [symmetric] by simp
qed

lemma map_of_const: "k \<in> set ks \<Longrightarrow> map_of (map (\<lambda>k. (k, v)) ks) k = Some v"
  by (induction ks) auto

lemma counters_at_key: "k \<in> set counter_keys \<Longrightarrow> counters_at v k = Some v"
  by (simp add: counters_at_def map_of_const)

lemma xact_commit_key: "''xact_commit'' \<in> set counter_keys"
  by (simp add: counter_keys_def)

lemma compare_database_stats_result:
  assumes "\<forall>k \<in> set counter_keys.
      db_start (database_stats baseline) k = Some (bs k)
      \<and> db_end (database_stats baseline) k = Some (be k)
      \<and> db_start (database_stats test) k = Some (ts k)
      \<and> db_end (database_stats test) k = Some (te k)"
  shows "compare_database_stats baseline test =
     (if \<exists>k \<in> set counter_keys.
           calculate_impact_int (be k - bs k) (te k - ts k) = Inl OverflowError
      then Inl OverflowError
      else Inr (\<lambda>k. if k \<in> set counter_keys
                     then Some \<lparr>cs_baseline = be k - bs k, cs_test = te k - ts k,
                                cs_impact_pct =
                                  projr (calculate_impact_int (be k - bs k) (te k - ts k))\<rparr>
                     else None))"
  unfolding compare_database_stats_def
  by (rule database_stats_loop_result [OF assms])

lemma example_counters:
  "\<forall>k \<in> set counter_keys.
      db_start (database_stats results_reset) k = Some 1000
      \<and> db_end (database_stats results_reset) k = Some 400
      \<and> db_start (database_stats results_steady) k = Some 0
      \<and> db_end (database_stats results_steady) k = Some 500"
  "\<forall>k \<in> set counter_keys.
      db_start (database_stats results_unit) k = Some 0
      \<and> db_end (database_stats results_unit) k = Some 1
      \<and> db_start (database_stats results_huge) k = Some 0
      \<and> db_end (database_stats results_huge) k = Some (10 ^ 400)"
  by (simp_all add: results_reset_def results_steady_def results_unit_def results_huge_def
      counters_at_key del: power_numeral)

lemma example_impacts:
  "calculate_impact_int (400 - 1000) (500 - 0) = Inr (- 550 / 3)"
  "calculate_impact_int (1 - 0) (10 ^ 400 - 0) = Inl OverflowError"
  unfolding calculate_impact_int_cases by simp_all

subsection \<open>The claims\<close>

text \<open>
  C4. \<^verbatim>\<open>assess_impact\<close> (the spec's classifyOverhead) grades the larger of the two
  absolute impacts through the strict thresholds 2, 5, 10 and 20: a tier is returned
  exactly when both absolute values are below its bound and not both are below the bound
  of the tier before it. So (1, 1) is NEGLIGIBLE, (3, 3) is LOW, (15, 15) is HIGH and
  (25, 1) is SEVERE.
\<close>

theorem C4_assess_impact_tiers:
  "(assess_impact t l = NEGLIGIBLE) = (max \<bar>t\<bar> \<bar>l\<bar> < 2)
   \<and> (assess_impact t l = LOW) = (2 \<le> max \<bar>t\<bar> \<bar>l\<bar> \<and> max \<bar>t\<bar> \<bar>l\<bar> < 5)
   \<and> (assess_impact t l = MODERATE) = (5 \<le> max \<bar>t\<bar> \<bar>l\<bar> \<and> max \<bar>t\<bar> \<bar>l\<bar> < 10)
   \<and> (assess_impact t l = HIGH) = (10 \<le> max \<bar>t\<bar> \<bar>l\<bar> \<and> max \<bar>t\<bar> \<bar>l\<bar> < 20)
   \<and> (assess_impact t l = SEVERE) = (20 \<le> max \<bar>t\<bar> \<bar>l\<bar>)
   \<and> assess_impact 1.0 1.0 = NEGLIGIBLE
   \<and> assess_impact 3 3 = LOW
   \<and> assess_impact 15 15 = HIGH
   \<and> assess_impact 25 1 = SEVERE"
  unfolding assess_impact_def by (simp add: max_def) linarith

text \<open>
  C5. \<^verbatim>\<open>assess_results\<close> (the spec's classifyRegression): the TPS status is CRITICAL
  exactly below -3, WARNING exactly in [-3, -1), OK otherwise. The latency status is
  CRITICAL exactly when the p99 impact is above 15 percent and above 5 ms, WARNING exactly
  when that fails and the impact is above 5 percent and above 2 ms, OK otherwise. The
  overall verdict is the worse of the two: FAIL when either is CRITICAL, else WARNING when
  either is WARNING, else PASS. At (-4, 20, 10) all three are at their worst, and at
  (-0.5, 20, 1) the latency status is OK.
\<close>

theorem C5_assess_results_statuses:
  "(tps_status (assess_results t p m) = ''CRITICAL'') = (t < - 3)
   \<and> (tps_status (assess_results t p m) = ''WARNING'') = (- 3 \<le> t \<and> t < - 1)
   \<and> (tps_status (assess_results t p m) = ''OK'') = (- 1 \<le> t)
   \<and> (p99_status (assess_results t p m) = ''CRITICAL'') = (p > 15 \<and> m > 5)
   \<and> (p99_status (assess_results t p m) = ''WARNING'')
        = (\<not> (p > 15 \<and> m > 5) \<and> p > 5 \<and> m > 2)
   \<and> (p99_status (assess_results t p m) = ''OK'')
        = (\<not> (p > 15 \<and> m > 5) \<and> \<not> (p > 5 \<and> m > 2))
   \<and> (overall (assess_results t p m) = ''FAIL'')
        = (tps_status (assess_results t p m) = ''CRITICAL''
           \<or> p99_status (assess_results t p m) = ''CRITICAL'')
   \<and> (overall (assess_results t p m) = ''WARNING'')
        = (tps_status (assess_results t p m) \<noteq> ''CRITICAL''
           \<and> p99_status (assess_results t p m) \<noteq> ''CRITICAL''
           \<and> (tps_status (assess_results t p m) = ''WARNING''
                \<or> p99_status (assess_results t p m) = ''WARNING''))
   \<and> (overall (assess_results t p m) = ''PASS'')
        = (tps_status (assess_results t p m) = ''OK''
           \<and> p99_status (assess_results t p m) = ''OK'')
   \<and> assess_results (- 4) 20 10
        = \<lparr>tps_status = ''CRITICAL'', p99_status = ''CRITICAL'', overall = ''FAIL''\<rparr>
   \<and> p99_status (assess_results (- 0.5) 20 1) = ''OK''"
  unfolding assess_results_def Let_def by (simp; linarith)



text \<open>
  C7. On an empty collection every summary is all zero and nothing is raised:
  \<^verbatim>\<open>duration_stats\<close> on an empty list of operations (passed, or the analyzer's own),
  \<^verbatim>\<open>compute_percentiles\<close> on an empty list of values, and \<^verbatim>\<open>percentile\<close> on an empty
  list.
\<close>

theorem C7_empty_summaries_are_zero:
  "duration_stats self (Some []) =
     Inr \<lparr>ds_count = 0, ds_min = 0, ds_max = 0, ds_mean = 0, ds_median = 0,
          ds_p95 = 0, ds_p99 = 0, ds_stddev = 0\<rparr>
   \<and> duration_stats (DDLAnalyzer_init []) None =
     Inr \<lparr>ds_count = 0, ds_min = 0, ds_max = 0, ds_mean = 0, ds_median = 0,
          ds_p95 = 0, ds_p99 = 0, ds_stddev = 0\<rparr>
   \<and> compute_percentiles [] =
     Inr \<lparr>cp_mean = 0, cp_stddev = 0, cp_p50 = 0, cp_p95 = 0, cp_p99 = 0, cp_max = 0\<rparr>
   \<and> percentile self [] p = Inr 0"
  by (simp add: duration_stats_def DDLAnalyzer_init_def compute_percentiles_def percentile_def)

text \<open>
  C9. The risk tier of \<^verbatim>\<open>risk_assessment\<close> (the spec's classifyBlockingRisk) is LOW
  below 1 percent, MODERATE below 3, MODERATE-HIGH below 5 and HIGH from 5 on, each with
  its recommendation; an average delay above 100 ms appends \<^verbatim>\<open> (HIGH DELAY)\<close> to the
  tier and a line on the average delay to the recommendation. \<^verbatim>\<open>risk_assessment\<close>
  applies this to the measured share of recorder-blocked operations and to their mean
  duration, and raises nothing.
\<close>

theorem C9_risk_assessment_tiers:
  "fst (risk_tier f pct d) =
     (if pct < 1 then ''LOW'' else if pct < 3 then ''MODERATE''
      else if pct < 5 then ''MODERATE-HIGH'' else ''HIGH'')
     @ (if d > 100 then '' (HIGH DELAY)'' else [])
   \<and> snd (risk_tier f pct d) =
     (if pct < 1 then ''Safe for production use with high DDL workloads''
      else if pct < 3 then ''Safe for typical workloads. Monitor if >50 DDL ops/hour''
      else if pct < 5 then ''Consider emergency mode (300s) during DDL-heavy periods''
      else ''Use emergency mode (300s) or schedule DDL during low-traffic windows'')
     @ (if d > 100
        then [CHR 0x0A] @ ''Average delay '' @ f d
               @ ''ms is concerning for latency-sensitive applications''
        else [])
   \<and> risk_assessment f (DDLAnalyzer_init ops) i =
       Inr (risk_tier f
         (if ops = [] then 0
          else real (length (filter blocked_by_flight_recorder ops)) / real (length ops) * 100)
         (if filter blocked_by_flight_recorder ops = [] then 0
          else sum_list (map duration_ms (filter blocked_by_flight_recorder ops))
               / real (length (filter blocked_by_flight_recorder ops))))"
  unfolding risk_assessment_def Let_def operations_init pct_of_total_init
  by (simp add: risk_tier_def statistics_mean_nonempty)




text \<open>
  C10. For every list of DDL operation records \<^verbatim>\<open>blocking_analysis\<close> returns a report
  (it raises nothing) in which the operations blocked by the recorder are at most the
  blocked operations, in count and in percentage; both percentages lie between 0 and 100
  and are 0 for an empty list. The reason is that an operation counted as blocked by the
  recorder has \<^verbatim>\<open>was_blocked\<close> set and a non-empty \<^verbatim>\<open>blocked_by\<close>.
\<close>

theorem C10_blocking_analysis_bounds:
  "\<exists>r. blocking_analysis (DDLAnalyzer_init ops) = Inr r
     \<and> total_blocked r = length (filter was_blocked ops)
     \<and> fr_blocked r = length (filter blocked_by_flight_recorder ops)
     \<and> total_blocked_pct r =
           (if ops = [] then 0 else real (total_blocked r) / real (length ops) * 100)
     \<and> fr_blocked_pct r =
           (if ops = [] then 0 else real (fr_blocked r) / real (length ops) * 100)
     \<and> fr_blocked r \<le> total_blocked r
     \<and> fr_blocked_pct r \<le> total_blocked_pct r
     \<and> 0 \<le> fr_blocked_pct r \<and> total_blocked_pct r \<le> 100
     \<and> (ops = [] \<longrightarrow> fr_blocked_pct r = 0 \<and> total_blocked_pct r = 0)
     \<and> (\<forall>op \<in> set ops. blocked_by_flight_recorder op \<longrightarrow>
           was_blocked op \<and> blocked_by op \<noteq> None \<and> blocked_by op \<noteq> Some [])"
proof -
  let ?b = "filter was_blocked ops"
  let ?f = "filter blocked_by_flight_recorder ops"
  have le: "length ?f \<le> length ?b"
    by (rule length_filter_mono) (simp add: recorder_implies_blocked)
  have lb: "length ?b \<le> length ops" by simp
  have pct: "(if ops = [] then 0 else real (length ?f) / real (length ops) * 100)
           \<le> (if ops = [] then 0 else real (length ?b) / real (length ops) * 100)"
    using le by (simp add: divide_right_mono)
  have hi: "(if ops = [] then 0 else real (length ?b) / real (length ops) * 100) \<le> 100"
    using lb by (simp add: divide_le_eq)
  have lo: "0 \<le> (if ops = [] then 0 else real (length ?f) / real (length ops) * 100)"
    by simp
  have st: "rbind (duration_stats self (Some xs)) g = g (projr (duration_stats self (Some xs)))"
    for self xs and g :: "duration_summary \<Rightarrow> py_error + blocking_report"
    by (rule rbind_Inr_projr [OF duration_stats_total])
  show ?thesis
    unfolding blocking_analysis_def Let_def operations_init pct_of_total_init st rbind.simps
    using le pct hi lo by (simp add: recorder_implies_blocked)
qed

theorem C10_blocking_analysis_witness:
  "(\<exists>r. blocking_analysis (DDLAnalyzer_init [op_held, op_free]) = Inr r
      \<and> total_blocked r = 1 \<and> fr_blocked r = 1
      \<and> fr_blocked_pct r = 50 \<and> total_blocked_pct r = 50)
   \<and> blocked_by_flight_recorder op_held
   \<and> was_blocked op_held \<and> blocked_by op_held \<noteq> None \<and> blocked_by op_held \<noteq> Some []
   \<and> (\<exists>r. blocking_analysis (DDLAnalyzer_init []) = Inr r
      \<and> fr_blocked_pct r = 0 \<and> total_blocked_pct r = 0)"
proof -
  from C10_blocking_analysis_bounds [of "[op_held, op_free]"] obtain r where
    r: "blocking_analysis (DDLAnalyzer_init [op_held, op_free]) = Inr r"
       "total_blocked r = length (filter was_blocked [op_held, op_free])"
       "fr_blocked r = length (filter blocked_by_flight_recorder [op_held, op_free])"
       "total_blocked_pct r =
          (if [op_held, op_free] = [] then 0
           else real (total_blocked r) / real (length [op_held, op_free]) * 100)"
       "fr_blocked_pct r =
          (if [op_held, op_free] = [] then 0
           else real (fr_blocked r) / real (length [op_held, op_free]) * 100)"
       "\<forall>op \<in> set [op_held, op_free]. blocked_by_flight_recorder op \<longrightarrow>
           was_blocked op \<and> blocked_by op \<noteq> None \<and> blocked_by op \<noteq> Some []"
    by blast
  have f1: "filter was_blocked [op_held, op_free] = [op_held]"
    by (simp add: op_held_def op_free_def)
  have f2: "filter blocked_by_flight_recorder [op_held, op_free] = [op_held]"
    by (simp add: op_held_is_recorder op_free_not_recorder)
  have cnt: "total_blocked r = 1" "fr_blocked r = 1" using r(2,3) f1 f2 by simp_all
  from cnt have pct: "total_blocked_pct r = 50" "fr_blocked_pct r = 50"
    using r(4,5) by simp_all
  have first: "\<exists>r. blocking_analysis (DDLAnalyzer_init [op_held, op_free]) = Inr r
      \<and> total_blocked r = 1 \<and> fr_blocked r = 1
      \<and> fr_blocked_pct r = 50 \<and> total_blocked_pct r = 50"
    using r(1) cnt pct by blast
  have held: "was_blocked op_held \<and> blocked_by op_held \<noteq> None \<and> blocked_by op_held \<noteq> Some []"
    using r(6) op_held_is_recorder by simp
  from C10_blocking_analysis_bounds [of "[]"] obtain r0 where
    r0: "blocking_analysis (DDLAnalyzer_init []) = Inr r0"
        "([] :: DDLOperation list) = [] \<longrightarrow> fr_blocked_pct r0 = 0 \<and> total_blocked_pct r0 = 0"
    by blast
  then have last: "\<exists>r. blocking_analysis (DDLAnalyzer_init []) = Inr r
      \<and> fr_blocked_pct r = 0 \<and> total_blocked_pct r = 0"
    by blast
  from first held last op_held_is_recorder show ?thesis by blast
qed

text \<open>
  C8. On fewer than two samples \<^verbatim>\<open>compute_confidence_interval\<close> returns
  \<open>(mean, mean, 0)\<close>, where the mean is the single sample, or 0 when there is none. On two
  or more samples it returns \<open>(mean - margin, mean + margin, margin)\<close> with
  \<open>margin = critical * (stdev / sqrt n)\<close>, the critical value being 1.96 above 30 samples and
  2.0 otherwise; then \<open>low \<le> mean \<le> high\<close>. It raises nothing.
\<close>

theorem C8_confidence_interval:
  "(length vs < 2 \<longrightarrow>
      compute_confidence_interval vs c =
        Inr (if vs = [] then 0 else hd vs, if vs = [] then 0 else hd vs, 0)
      \<and> (vs \<noteq> [] \<longrightarrow> statistics_mean vs = Inr (hd vs)))
   \<and> (2 \<le> length ws \<longrightarrow>
      (\<exists>mean sd. statistics_mean ws = Inr mean \<and> statistics_stdev ws = Inr sd
         \<and> compute_confidence_interval ws c =
             Inr (mean - (if 30 < length ws then 1.96 else 2.0) * (sd / sqrt (real (length ws))),
                  mean + (if 30 < length ws then 1.96 else 2.0) * (sd / sqrt (real (length ws))),
                  (if 30 < length ws then 1.96 else 2.0) * (sd / sqrt (real (length ws))))
         \<and> mean - (if 30 < length ws then 1.96 else 2.0) * (sd / sqrt (real (length ws))) \<le> mean
         \<and> mean \<le> mean + (if 30 < length ws then 1.96 else 2.0) * (sd / sqrt (real (length ws)))))"
proof (intro conjI impI)
  assume "length vs < 2"
  then consider "vs = []" | x where "vs = [x]"
    by (cases vs) (auto simp: less_Suc_eq_0_disj)
  then show "compute_confidence_interval vs c =
        Inr (if vs = [] then 0 else hd vs, if vs = [] then 0 else hd vs, 0)"
    by cases (simp_all add: compute_confidence_interval_def py_getitem_def)
next
  assume "length vs < 2" and "vs \<noteq> []"
  then obtain x where "vs = [x]"
    by (cases vs) (auto simp: less_Suc_eq_0_disj)
  then show "statistics_mean vs = Inr (hd vs)" by (simp add: statistics_mean_def)
next
  assume l2: "2 \<le> length ws"
  then have ne: "ws \<noteq> []" by auto
  obtain sd where sd: "statistics_stdev ws = Inr sd" "0 \<le> sd"
    using statistics_stdev_nonneg [OF l2] by blast
  define mean where "mean = sum_list ws / real (length ws)"
  have m: "statistics_mean ws = Inr mean"
    by (simp add: statistics_mean_nonempty [OF ne] mean_def)
  have rt: "0 < sqrt (real (length ws))" using ne by simp
  have marg: "0 \<le> (if 30 < length ws then 1.96 else 2.0) * (sd / sqrt (real (length ws)))"
    using sd(2) rt by simp
  have cci: "compute_confidence_interval ws c =
             Inr (mean - (if 30 < length ws then 1.96 else 2.0) * (sd / sqrt (real (length ws))),
                  mean + (if 30 < length ws then 1.96 else 2.0) * (sd / sqrt (real (length ws))),
                  (if 30 < length ws then 1.96 else 2.0) * (sd / sqrt (real (length ws))))"
    using l2 ne by (simp add: compute_confidence_interval_def m sd(1) py_truediv_def Let_def)
  show "\<exists>mean sd. statistics_mean ws = Inr mean \<and> statistics_stdev ws = Inr sd
         \<and> compute_confidence_interval ws c =
             Inr (mean - (if 30 < length ws then 1.96 else 2.0) * (sd / sqrt (real (length ws))),
                  mean + (if 30 < length ws then 1.96 else 2.0) * (sd / sqrt (real (length ws))),
                  (if 30 < length ws then 1.96 else 2.0) * (sd / sqrt (real (length ws))))
         \<and> mean - (if 30 < length ws then 1.96 else 2.0) * (sd / sqrt (real (length ws))) \<le> mean
         \<and> mean \<le> mean + (if 30 < length ws then 1.96 else 2.0) * (sd / sqrt (real (length ws)))"
    using m sd(1) cci marg by (intro exI [of _ mean] exI [of _ sd]) simp
qed

theorem C8_confidence_interval_witness:
  "length [5 :: real] < 2 \<and> compute_confidence_interval [5] 0.95 = Inr (5, 5, 0)
   \<and> 2 \<le> length [1, 3 :: real]
   \<and> compute_confidence_interval [1, 3] 0.95 = Inr (0, 4, 2)"
proof -
  have sd: "statistics_stdev [1, 3] = Inr (sqrt 2)"
    by (simp add: statistics_stdev_def Let_def)
  have mn: "statistics_mean [1, 3] = Inr 2"
    by (simp add: statistics_mean_def)
  from C8_confidence_interval [of "[5]" "0.95" "[1, 3]"] sd mn show ?thesis by simp
qed

text \<open>
  C1 (as amended). When each of the eight counter keys is present in the four snapshots,
  \<^verbatim>\<open>compare_database_stats\<close> makes no sign check: it takes \<open>end[key] - start[key]\<close> of the
  baseline and of the test run as they are, negative or not. It fails only when, for some
  key, the true division of the two integer deltas in \<^verbatim>\<open>calculate_impact\<close> leaves the float
  range, and then with \<^verbatim>\<open>OverflowError\<close>; that is when the baseline delta is not 0 and
  \<open>(test - baseline) / baseline\<close> reaches \<open>2 ^ 1024 - 2 ^ 970\<close> in magnitude. Otherwise it
  returns a metrics dict whose entry for each key holds the two deltas unchanged and the
  impact computed from them. Counters within the signed 64-bit range never overflow.
\<close>

theorem C1_counter_deltas_unchecked:
  assumes "\<forall>k \<in> set counter_keys.
      db_start (database_stats baseline) k = Some (bs k)
      \<and> db_end (database_stats baseline) k = Some (be k)
      \<and> db_start (database_stats test) k = Some (ts k)
      \<and> db_end (database_stats test) k = Some (te k)"
  shows
    "((\<forall>k \<in> set counter_keys.
         calculate_impact_int (be k - bs k) (te k - ts k) \<noteq> Inl OverflowError) \<longrightarrow>
       (\<exists>m. compare_database_stats baseline test = Inr m
          \<and> (\<forall>k \<in> set counter_keys. \<exists>e. m k = Some e
                \<and> cs_baseline e = be k - bs k
                \<and> cs_test e = te k - ts k
                \<and> calculate_impact_int (be k - bs k) (te k - ts k) = Inr (cs_impact_pct e))))
     \<and> ((\<exists>k \<in> set counter_keys.
           calculate_impact_int (be k - bs k) (te k - ts k) = Inl OverflowError) \<longrightarrow>
         compare_database_stats baseline test = Inl OverflowError)
     \<and> (\<forall>k. (calculate_impact_int (be k - bs k) (te k - ts k) = Inl OverflowError) =
           (be k - bs k \<noteq> 0
            \<and> 2 ^ 1024 - 2 ^ 970
                \<le> \<bar>real_of_int ((te k - ts k) - (be k - bs k)) / real_of_int (be k - bs k)\<bar>))
     \<and> ((\<forall>k \<in> set counter_keys.
           \<bar>bs k\<bar> < 2 ^ 63 \<and> \<bar>be k\<bar> < 2 ^ 63 \<and> \<bar>ts k\<bar> < 2 ^ 63 \<and> \<bar>te k\<bar> < 2 ^ 63) \<longrightarrow>
         \<not> isl (compare_database_stats baseline test))"
proof (intro conjI impI allI)
  assume ok: "\<forall>k \<in> set counter_keys.
         calculate_impact_int (be k - bs k) (te k - ts k) \<noteq> Inl OverflowError"
  let ?entry = "\<lambda>k. \<lparr>cs_baseline = be k - bs k, cs_test = te k - ts k,
      cs_impact_pct = projr (calculate_impact_int (be k - bs k) (te k - ts k))\<rparr>"
  let ?metrics = "\<lambda>k. if k \<in> set counter_keys then Some (?entry k) else None"
  have res: "compare_database_stats baseline test = Inr ?metrics"
    unfolding compare_database_stats_result [OF assms] using ok by auto
  have entries: "\<forall>k \<in> set counter_keys. \<exists>e. ?metrics k = Some e
                \<and> cs_baseline e = be k - bs k
                \<and> cs_test e = te k - ts k
                \<and> calculate_impact_int (be k - bs k) (te k - ts k) = Inr (cs_impact_pct e)"
  proof
    fix k
    assume k: "k \<in> set counter_keys"
    have e1: "?metrics k = Some (?entry k)" using k by simp
    have e2: "cs_baseline (?entry k) = be k - bs k" by simp
    have e3: "cs_test (?entry k) = te k - ts k" by simp
    have e4: "cs_impact_pct (?entry k)
        = projr (calculate_impact_int (be k - bs k) (te k - ts k))" by simp
    have "calculate_impact_int (be k - bs k) (te k - ts k) \<noteq> Inl OverflowError"
      using ok k by blast
    then have e5: "calculate_impact_int (be k - bs k) (te k - ts k)
        = Inr (cs_impact_pct (?entry k))"
      unfolding e4 by (rule calculate_impact_int_result)
    from e1 e2 e3 e5 show "\<exists>e. ?metrics k = Some e
                \<and> cs_baseline e = be k - bs k
                \<and> cs_test e = te k - ts k
                \<and> calculate_impact_int (be k - bs k) (te k - ts k) = Inr (cs_impact_pct e)"
      by blast
  qed
  from res entries show "\<exists>m. compare_database_stats baseline test = Inr m
          \<and> (\<forall>k \<in> set counter_keys. \<exists>e. m k = Some e
                \<and> cs_baseline e = be k - bs k
                \<and> cs_test e = te k - ts k
                \<and> calculate_impact_int (be k - bs k) (te k - ts k) = Inr (cs_impact_pct e))"
    by blast
next
  assume "\<exists>k \<in> set counter_keys.
           calculate_impact_int (be k - bs k) (te k - ts k) = Inl OverflowError"
  then show "compare_database_stats baseline test = Inl OverflowError"
    unfolding compare_database_stats_result [OF assms] by (simp only: if_True)
next
  fix k
  show "(calculate_impact_int (be k - bs k) (te k - ts k) = Inl OverflowError) =
           (be k - bs k \<noteq> 0
            \<and> 2 ^ 1024 - 2 ^ 970
                \<le> \<bar>real_of_int ((te k - ts k) - (be k - bs k)) / real_of_int (be k - bs k)\<bar>)"
    by (rule calculate_impact_int_overflow_iff)
next
  assume "\<forall>k \<in> set counter_keys.
           \<bar>bs k\<bar> < 2 ^ 63 \<and> \<bar>be k\<bar> < 2 ^ 63 \<and> \<bar>ts k\<bar> < 2 ^ 63 \<and> \<bar>te k\<bar> < 2 ^ 63"
  then have "\<forall>k \<in> set counter_keys.
         calculate_impact_int (be k - bs k) (te k - ts k) \<noteq> Inl OverflowError"
    using bounded_counters_no_overflow by blast
  then have "\<not> (\<exists>k \<in> set counter_keys.
         calculate_impact_int (be k - bs k) (te k - ts k) = Inl OverflowError)"
    by blast
  then show "\<not> isl (compare_database_stats baseline test)"
    unfolding compare_database_stats_result [OF assms] by (simp only: if_False sum.disc not_False_eq_True)
qed

theorem C1_counter_deltas_witness:
  "(\<exists>m. compare_database_stats results_reset results_steady = Inr m
      \<and> (\<exists>e. m ''xact_commit'' = Some e \<and> cs_baseline e = - 600 \<and> cs_test e = 500
             \<and> cs_impact_pct e = - 550 / 3))
   \<and> \<not> isl (compare_database_stats results_reset results_steady)
   \<and> compare_database_stats results_unit results_huge = Inl OverflowError"
proof -
  note a = C1_counter_deltas_unchecked [OF example_counters(1)]
  have bounded: "\<forall>k \<in> set counter_keys.
      \<bar>1000 :: int\<bar> < 2 ^ 63 \<and> \<bar>400 :: int\<bar> < 2 ^ 63 \<and> \<bar>0 :: int\<bar> < 2 ^ 63 \<and> \<bar>500 :: int\<bar> < 2 ^ 63"
    by simp
  have ok: "\<forall>k \<in> set counter_keys.
      calculate_impact_int (400 - 1000) (500 - 0) \<noteq> Inl OverflowError"
    using example_impacts(1) by simp
  from a ok obtain m where
    m: "compare_database_stats results_reset results_steady = Inr m"
       "\<forall>k \<in> set counter_keys. \<exists>e. m k = Some e
          \<and> cs_baseline e = 400 - 1000 \<and> cs_test e = 500 - 0
          \<and> calculate_impact_int (400 - 1000) (500 - 0) = Inr (cs_impact_pct e)"
    by blast
  from m(2) xact_commit_key obtain e where
    e: "m ''xact_commit'' = Some e" "cs_baseline e = 400 - 1000" "cs_test e = 500 - 0"
       "calculate_impact_int (400 - 1000) (500 - 0) = Inr (cs_impact_pct e)"
    by blast
  from e(4) example_impacts(1) have "cs_impact_pct e = - 550 / 3" by simp
  with m(1) e have first: "\<exists>m. compare_database_stats results_reset results_steady = Inr m
      \<and> (\<exists>e. m ''xact_commit'' = Some e \<and> cs_baseline e = - 600 \<and> cs_test e = 500
             \<and> cs_impact_pct e = - 550 / 3)"
    by simp
  from a bounded have within: "\<not> isl (compare_database_stats results_reset results_steady)"
    by blast
  note b = C1_counter_deltas_unchecked [OF example_counters(2)]
  have over: "\<exists>k \<in> set counter_keys.
      calculate_impact_int (1 - 0) (10 ^ 400 - 0) = Inl OverflowError"
    using xact_commit_key example_impacts(2) by blast
  from b over have "compare_database_stats results_unit results_huge = Inl OverflowError"
    by blast
  with first within show ?thesis by blast
qed

text \<open>
  C1 as stated fails: with baseline counters that fell from 1000 to 400 the comparison
  does not fail, and reports a baseline delta of -600 for \<^verbatim>\<open>xact_commit\<close>.
\<close>

theorem C1_negative_delta_propagates:
  "\<not> isl (compare_database_stats results_reset results_steady)
   \<and> map_option cs_baseline
        (projr (compare_database_stats results_reset results_steady) ''xact_commit'')
      = Some (- 600)"
proof -
  have "\<not> (\<exists>k \<in> set counter_keys.
      calculate_impact_int (400 - 1000) (500 - 0) = Inl OverflowError)"
    using example_impacts(1) by simp
  then have "compare_database_stats results_reset results_steady =
      Inr (\<lambda>k. if k \<in> set counter_keys
                then Some \<lparr>cs_baseline = 400 - 1000, cs_test = 500 - 0,
                           cs_impact_pct = projr (calculate_impact_int (400 - 1000) (500 - 0))\<rparr>
                else None)"
    unfolding compare_database_stats_result [OF example_counters(1)] by (simp only: if_False)
  then show ?thesis using xact_commit_key by simp
qed

text \<open>
  C2. \<^verbatim>\<open>calculate_impact\<close> returns 0 for a zero baseline, whatever the test value. The
  TPS path of \<^verbatim>\<open>analyze_workload\<close> does not: it divides by the mean baseline TPS with no
  guard, and on a workload whose baseline run reports 0 TPS it raises
  \<^verbatim>\<open>ZeroDivisionError\<close>.
\<close>

theorem C2_tps_path_divides_by_zero:
  "calculate_impact 0 t = Inr 0
   \<and> analyze_workload workload_idle_baseline = Inl ZeroDivisionError"
proof -
  have r: "baseline_runs workload_idle_baseline = [run_idle]"
    "enabled_runs workload_idle_baseline = [run_busy]"
    by (simp_all add: workload_idle_baseline_def)
  have t: "map tps [run_idle] = [0]" "map tps [run_busy] = [100]"
    by (simp_all add: run_idle_def run_busy_def)
  have m: "statistics_mean [0] = Inr 0" "statistics_mean [100] = Inr 100"
    by (simp_all add: statistics_mean_def)
  have dv: "py_truediv (100 - 0) 0 = Inl ZeroDivisionError"
    by (simp add: py_truediv_def)
  have "analyze_workload workload_idle_baseline = Inl ZeroDivisionError"
    unfolding analyze_workload_def r Let_def t m rbind.simps dv by simp
  moreover have "calculate_impact 0 t = Inr 0"
    by (simp add: calculate_impact_def)
  ultimately show ?thesis by simp
qed

end
